theory Spec2Isabelle
  imports Complex_Main
begin

section \<open>JavaScript numbers and strings\<close>

text \<open>
  A JavaScript number is an IEEE 754 binary64 value. Every finite one is a rational, so a
  number is modelled as \<open>rat option\<close>: \<open>Some q\<close> is the finite double \<open>q\<close> and \<open>None\<close>
  stands for the non-finite results (\<open>NaN\<close> and the infinities), which the code below never
  produces on the electron counts it supports. Each arithmetic operation computes the exact
  rational result and rounds it to the nearest value with a significand of 53 bits, ties to
  even (\<open>toDouble\<close>). The exponent is left unbounded: all values that occur lie between
  \<open>1E-5\<close> and \<open>Number.MAX_VALUE\<close>, far inside the normal range of binary64.
\<close>

type_synonym jsnum = "rat option"

function bitLength :: "int \<Rightarrow> nat" where
  "bitLength k = (if k \<le> 0 then 0 else Suc (bitLength (k div 2)))"
  by pat_completeness auto
termination
  by (relation "measure nat") auto

declare bitLength.simps [simp del]

definition floorLog2 :: "rat \<Rightarrow> int" where
  "floorLog2 x = (if 1 \<le> x then int (bitLength \<lfloor>x\<rfloor>) - 1
                  else - int (bitLength (\<lceil>1 / x\<rceil> - 1)))"

definition scale2 :: "rat \<Rightarrow> int \<Rightarrow> rat" where
  "scale2 x k = (if 0 \<le> k then x * 2 ^ nat k else x / 2 ^ nat (- k))"

definition roundHalfEven :: "rat \<Rightarrow> int" where
  "roundHalfEven x = (let f = \<lfloor>x\<rfloor>; d = x - of_int f in
     if d < 1 / 2 then f else if 1 / 2 < d then f + 1 else if even f then f else f + 1)"

definition toDouble :: "rat \<Rightarrow> rat" where
  "toDouble x = (if x = 0 then 0 else
     let e = floorLog2 \<bar>x\<bar> - 52 in scale2 (of_int (roundHalfEven (scale2 x (- e)))) e)"

definition jsPlus :: "jsnum \<Rightarrow> jsnum \<Rightarrow> jsnum" where
  "jsPlus a b = (case (a, b) of (Some x, Some y) \<Rightarrow> Some (toDouble (x + y)) | _ \<Rightarrow> None)"

definition jsMinus :: "jsnum \<Rightarrow> jsnum \<Rightarrow> jsnum" where
  "jsMinus a b = (case (a, b) of (Some x, Some y) \<Rightarrow> Some (toDouble (x - y)) | _ \<Rightarrow> None)"

definition jsTimes :: "jsnum \<Rightarrow> jsnum \<Rightarrow> jsnum" where
  "jsTimes a b = (case (a, b) of (Some x, Some y) \<Rightarrow> Some (toDouble (x * y)) | _ \<Rightarrow> None)"

definition jsDivide :: "jsnum \<Rightarrow> jsnum \<Rightarrow> jsnum" where
  "jsDivide a b = (case (a, b) of
      (Some x, Some y) \<Rightarrow> if y = 0 then None else Some (toDouble (x / y))
    | _ \<Rightarrow> None)"

text \<open>A numeric literal of the source denotes the double nearest to its decimal value.\<close>

definition literal :: "rat \<Rightarrow> jsnum" where
  "literal q = Some (toDouble q)"

text \<open>
  The values the radius code compares are numbers and property keys, which are strings.
  \<open>toNumber\<close> is JavaScript's \<open>ToNumber\<close> on the strings that occur here: a string of
  decimal digits is its value (the empty string is 0); any other string is \<open>NaN\<close>.
\<close>

datatype jsval = Num jsnum | Str string

definition isDigit :: "char \<Rightarrow> bool" where
  "isDigit c = (48 \<le> (of_char c :: nat) \<and> (of_char c :: nat) \<le> 57)"

definition digitValue :: "char \<Rightarrow> nat" where
  "digitValue c = of_char c - 48"

definition digitsToNat :: "string \<Rightarrow> nat" where
  "digitsToNat s = foldl (\<lambda>acc c. 10 * acc + digitValue c) 0 s"

definition toNumber :: "jsval \<Rightarrow> jsnum" where
  "toNumber v = (case v of
      Num x \<Rightarrow> x
    | Str s \<Rightarrow> if list_all isDigit s then Some (toDouble (of_nat (digitsToNat s))) else None)"

text \<open>
  \<open>ToString\<close> of an integer-valued number, as the \<open>in\<close> operator applies it to its left
  operand to get a property key.
\<close>

definition digitChar :: "nat \<Rightarrow> char" where
  "digitChar d = char_of (48 + d)"

fun natToString :: "nat \<Rightarrow> string" where
  "natToString n = (if n < 10 then [digitChar n]
                    else natToString (n div 10) @ [digitChar (n mod 10)])"

declare natToString.simps [simp del]

definition numberToString :: "int \<Rightarrow> string" where
  "numberToString i = (if i < 0 then CHR ''-'' # natToString (nat (- i))
                       else natToString (nat i))"

text \<open>
  The relational operators: two strings are compared as strings, code unit by code unit;
  in every other case both operands are converted to numbers, and a comparison with
  \<open>NaN\<close> is false.
\<close>

fun stringLess :: "string \<Rightarrow> string \<Rightarrow> bool" where
  "stringLess [] [] = False"
| "stringLess [] (d # t) = True"
| "stringLess (c # s) [] = False"
| "stringLess (c # s) (d # t) =
     (if (of_char c :: nat) < of_char d then True
      else if (of_char d :: nat) < of_char c then False
      else stringLess s t)"

definition jsLess :: "jsval \<Rightarrow> jsval \<Rightarrow> bool" where
  "jsLess a b = (case (a, b) of
      (Str s, Str t) \<Rightarrow> stringLess s t
    | _ \<Rightarrow> (case (toNumber a, toNumber b) of (Some x, Some y) \<Rightarrow> x < y | _ \<Rightarrow> False))"

definition jsGreater :: "jsval \<Rightarrow> jsval \<Rightarrow> bool" where
  "jsGreater a b = jsLess b a"

section \<open>IsotopeElectronCloudView: the electron cloud radius\<close>

datatype error = AssertionError string

definition MAX_ELECTRONS :: int where
  "MAX_ELECTRONS = 10"

definition MAX_VALUE :: rat where
  "MAX_VALUE = 2 ^ 1024 - 2 ^ 971"

text \<open>
  The object literal \<open>mapElectronCountToRadius\<close>. Its property keys are the strings
  \<open>"1"\<close> to \<open>"10"\<close>; a \<open>for ... in\<close> loop enumerates integer-like keys in ascending
  numeric order, which is the order written here.
\<close>

definition mapElectronCountToRadius :: "(string \<times> jsnum) list" where
  "mapElectronCountToRadius =
     [(''1'', literal 38),
      (''2'', literal 32),
      (''3'', jsTimes (literal 134) (literal (75 / 100))),
      (''4'', jsTimes (literal 90) (literal (97 / 100))),
      (''5'', literal 82),
      (''6'', literal 77),
      (''7'', literal 75),
      (''8'', literal 73),
      (''9'', literal 71),
      (''10'', literal 69)]"

text \<open>
  The loop that determines \<open>minShellRadius\<close> and \<open>maxShellRadius\<close>. The loop variable
  \<open>radius\<close> of \<open>for ( const radius in mapElectronCountToRadius )\<close> ranges over the
  property keys of the object, and the body stores the key itself.
\<close>

definition loopBody :: "string \<Rightarrow> jsval \<times> jsval \<Rightarrow> jsval \<times> jsval" where
  "loopBody radius bounds = (case bounds of (minShellRadius, maxShellRadius) \<Rightarrow>
     let maxShellRadius' = (if jsGreater (Str radius) maxShellRadius then Str radius
                            else maxShellRadius);
         minShellRadius' = (if jsLess (Str radius) minShellRadius then Str radius
                            else minShellRadius)
     in (minShellRadius', maxShellRadius'))"

definition shellRadiusRange :: "jsval \<times> jsval" where
  "shellRadiusRange =
     fold loopBody (map fst mapElectronCountToRadius) (Num (Some MAX_VALUE), Num (literal 0))"

text \<open>
  Modelled from the spec: \<open>LinearFunction\<close> is imported from the dot library, which is not
  part of the repository. The spec gives it as plain linear interpolation,
  \<open>output = b1 + (input - a1) / (a2 - a1) * (b2 - b1)\<close>. The operands go through
  JavaScript's arithmetic operators, which convert them to numbers first.
\<close>

definition LinearFunction :: "jsval \<Rightarrow> jsval \<Rightarrow> jsval \<Rightarrow> jsval \<Rightarrow> jsval \<Rightarrow> jsnum" where
  "LinearFunction a1 a2 b1 b2 a3 =
     jsPlus (toNumber b1)
       (jsTimes
          (jsDivide (jsMinus (toNumber a3) (toNumber a1)) (jsMinus (toNumber a2) (toNumber a1)))
          (jsMinus (toNumber b2) (toNumber b1)))"

definition minChangedRadius :: jsnum where
  "minChangedRadius = literal 40"

definition maxChangedRadius :: jsnum where
  "maxChangedRadius = literal 55"

definition reduceRadiusRange :: "jsnum \<Rightarrow> jsnum" where
  "reduceRadiusRange v = (case shellRadiusRange of (minShellRadius, maxShellRadius) \<Rightarrow>
     LinearFunction minShellRadius maxShellRadius (Num minChangedRadius) (Num maxChangedRadius)
       (Num v))"

text \<open>
  \<open>getElectronShellDiameter\<close>. The flag \<open>assertEnabled\<close> says whether the global
  \<open>assert\<close> is defined: \<open>assert && assert( ... )\<close> throws only in a build with
  assertions and is skipped otherwise.
\<close>

definition getElectronShellDiameter :: "bool \<Rightarrow> int \<Rightarrow> error + jsnum" where
  "getElectronShellDiameter assertEnabled numElectrons =
     (case map_of mapElectronCountToRadius (numberToString numElectrons) of
        Some r \<Rightarrow> Inr (reduceRadiusRange r)
      | None \<Rightarrow>
          if assertEnabled \<and> \<not> numElectrons \<le> MAX_ELECTRONS
          then Inl (AssertionError
                 (''Atom has more than supported number of electrons, ''
                    @ numberToString numElectrons))
          else Inr (literal 0))"

text \<open>
  \<open>updateNode\<close> sets the radius and the fill of the cloud. \<open>modelToViewDeltaX\<close> is the
  model-view transform handed to the constructor. Of the radial gradient only the outer
  radius is kept; its centre, inner radius and colour stops are constants.
\<close>

datatype fill = Transparent | RadialGradient jsnum

record cloud =
  radius :: jsnum
  fill :: fill

definition updateNode :: "(jsnum \<Rightarrow> jsnum) \<Rightarrow> bool \<Rightarrow> int \<Rightarrow> cloud \<Rightarrow> error + cloud" where
  "updateNode modelToViewDeltaX assertEnabled numElectrons self =
     (if numElectrons = 0
      then Inr (self\<lparr>radius := literal (1 / 100000), fill := Transparent\<rparr>)
      else (case getElectronShellDiameter assertEnabled numElectrons of
              Inl err \<Rightarrow> Inl err
            | Inr d \<Rightarrow>
                let r = jsTimes (modelToViewDeltaX (jsDivide d (literal 2))) (literal (12 / 10))
                in Inr (self\<lparr>radius := r, fill := RadialGradient r\<rparr>)))"

section \<open>NumberAtom\<close>

text \<open>
  Modelled from the spec: \<open>NumberProperty\<close>, \<open>DerivedProperty\<close> and \<open>Emitter\<close> are
  imported from the axon library, which is not part of the repository. The spec describes
  them as observable properties with dependency tracking: a derived property subscribes to
  the change events of each base property it depends on and is recomputed, synchronously,
  whenever one of them changes; the emitter's notification is a pure signal without payload;
  disposing a derived property releases its subscriptions, disposing a base property
  releases its listeners. A property notifies its listeners only when \<open>set\<close> changes its
  value. What the library does when a disposed object is used is not described; the model
  gives a disposed object no behaviour beyond having no listeners.

  The atom holds the values of its six properties, the subscriptions of the derived
  properties in the order in which the constructor creates them, and the calls that the
  methods of \<open>NumberAtom\<close> have made on its properties and its emitter, in order.
\<close>

datatype baseProperty = ProtonCount | NeutronCount | ElectronCount

datatype derivedProperty = Charge | MassNumber | ParticleCount

datatype call =
    Set baseProperty int
  | Emit
  | DisposeDerived derivedProperty
  | DisposeBase baseProperty
  | DisposeEmitter

record NumberAtom =
  protonCountProperty :: int
  neutronCountProperty :: int
  electronCountProperty :: int
  chargeProperty :: int
  massNumberProperty :: int
  particleCountProperty :: int
  listeners :: "(baseProperty \<times> derivedProperty) list"
  calls :: "call list"

text \<open>The ES5 getters for the particle counts.\<close>

definition protonCount :: "NumberAtom \<Rightarrow> int" where
  "protonCount a = protonCountProperty a"

definition neutronCount :: "NumberAtom \<Rightarrow> int" where
  "neutronCount a = neutronCountProperty a"

definition electronCount :: "NumberAtom \<Rightarrow> int" where
  "electronCount a = electronCountProperty a"

text \<open>The derivations handed to the three \<open>DerivedProperty\<close> constructors.\<close>

fun dependencies :: "derivedProperty \<Rightarrow> baseProperty list" where
  "dependencies Charge = [ProtonCount, ElectronCount]"
| "dependencies MassNumber = [ProtonCount, NeutronCount]"
| "dependencies ParticleCount = [ProtonCount, NeutronCount, ElectronCount]"

fun recompute :: "derivedProperty \<Rightarrow> NumberAtom \<Rightarrow> NumberAtom" where
  "recompute Charge a =
     a\<lparr>chargeProperty := protonCountProperty a - electronCountProperty a\<rparr>"
| "recompute MassNumber a =
     a\<lparr>massNumberProperty := protonCountProperty a + neutronCountProperty a\<rparr>"
| "recompute ParticleCount a =
     a\<lparr>particleCountProperty :=
         protonCountProperty a + neutronCountProperty a + electronCountProperty a\<rparr>"

definition newDerivedProperty :: "derivedProperty \<Rightarrow> NumberAtom \<Rightarrow> NumberAtom" where
  "newDerivedProperty d a =
     recompute d (a\<lparr>listeners := listeners a @ map (\<lambda>b. (b, d)) (dependencies d)\<rparr>)"

text \<open>
  The constructor, with the options \<open>protonCount\<close>, \<open>neutronCount\<close> and \<open>electronCount\<close>
  (each 0 by default).
\<close>

definition create :: "int \<Rightarrow> int \<Rightarrow> int \<Rightarrow> NumberAtom" where
  "create p n e =
     newDerivedProperty ParticleCount
       (newDerivedProperty MassNumber
          (newDerivedProperty Charge
             \<lparr>protonCountProperty = p, neutronCountProperty = n, electronCountProperty = e,
              chargeProperty = 0, massNumberProperty = 0, particleCountProperty = 0,
              listeners = [], calls = []\<rparr>))"

fun getValue :: "baseProperty \<Rightarrow> NumberAtom \<Rightarrow> int" where
  "getValue ProtonCount a = protonCountProperty a"
| "getValue NeutronCount a = neutronCountProperty a"
| "getValue ElectronCount a = electronCountProperty a"

fun setPropertyValue :: "baseProperty \<Rightarrow> int \<Rightarrow> NumberAtom \<Rightarrow> NumberAtom" where
  "setPropertyValue ProtonCount v a = a\<lparr>protonCountProperty := v\<rparr>"
| "setPropertyValue NeutronCount v a = a\<lparr>neutronCountProperty := v\<rparr>"
| "setPropertyValue ElectronCount v a = a\<lparr>electronCountProperty := v\<rparr>"

definition notifyListeners :: "baseProperty \<Rightarrow> NumberAtom \<Rightarrow> NumberAtom" where
  "notifyListeners b a = fold recompute (map snd (filter (\<lambda>l. fst l = b) (listeners a))) a"

definition propertySet :: "baseProperty \<Rightarrow> int \<Rightarrow> NumberAtom \<Rightarrow> NumberAtom" where
  "propertySet b v a =
     (let a' = a\<lparr>calls := calls a @ [Set b v]\<rparr>
      in if getValue b a' = v then a' else notifyListeners b (setPropertyValue b v a'))"

definition emit :: "NumberAtom \<Rightarrow> NumberAtom" where
  "emit a = a\<lparr>calls := calls a @ [Emit]\<rparr>"

definition setSubAtomicParticleCount :: "int \<Rightarrow> int \<Rightarrow> int \<Rightarrow> NumberAtom \<Rightarrow> NumberAtom" where
  "setSubAtomicParticleCount protonCount' neutronCount' electronCount' a =
     emit (propertySet NeutronCount neutronCount'
            (propertySet ElectronCount electronCount'
              (propertySet ProtonCount protonCount' a)))"

definition equals :: "NumberAtom \<Rightarrow> NumberAtom \<Rightarrow> bool" where
  "equals a otherAtom =
     (protonCount a = protonCount otherAtom \<and>
      neutronCount a = neutronCount otherAtom \<and>
      electronCount a = electronCount otherAtom)"

definition disposeDerived :: "derivedProperty \<Rightarrow> NumberAtom \<Rightarrow> NumberAtom" where
  "disposeDerived d a =
     a\<lparr>listeners := filter (\<lambda>l. snd l \<noteq> d) (listeners a),
       calls := calls a @ [DisposeDerived d]\<rparr>"

definition disposeBase :: "baseProperty \<Rightarrow> NumberAtom \<Rightarrow> NumberAtom" where
  "disposeBase b a =
     a\<lparr>listeners := filter (\<lambda>l. fst l \<noteq> b) (listeners a),
       calls := calls a @ [DisposeBase b]\<rparr>"

definition disposeEmitter :: "NumberAtom \<Rightarrow> NumberAtom" where
  "disposeEmitter a = a\<lparr>calls := calls a @ [DisposeEmitter]\<rparr>"

definition dispose :: "NumberAtom \<Rightarrow> NumberAtom" where
  "dispose a =
     disposeEmitter
       (disposeBase ElectronCount
         (disposeBase NeutronCount
           (disposeBase ProtonCount
             (disposeDerived ParticleCount
               (disposeDerived MassNumber
                 (disposeDerived Charge a))))))"

text \<open>
  An atom is live while every derived property still holds the subscriptions that the
  constructor gave it and no \<open>dispose\<close> call has been made on any of its parts. Its derived
  values are consistent when each equals its derivation from the current base counts.
\<close>

fun isDisposeCall :: "call \<Rightarrow> bool" where
  "isDisposeCall (Set b v) = False"
| "isDisposeCall Emit = False"
| "isDisposeCall (DisposeDerived d) = True"
| "isDisposeCall (DisposeBase b) = True"
| "isDisposeCall DisposeEmitter = True"

definition live :: "NumberAtom \<Rightarrow> bool" where
  "live a = (listeners a = listeners (create 0 0 0) \<and> filter isDisposeCall (calls a) = [])"

definition consistent :: "NumberAtom \<Rightarrow> bool" where
  "consistent a =
     (chargeProperty a = protonCount a - electronCount a \<and>
      massNumberProperty a = protonCount a + neutronCount a \<and>
      particleCountProperty a = protonCount a + neutronCount a + electronCount a)"

text \<open>
  The number of \<open>atomUpdated\<close> notifications emitted so far, and sequences of updates: the
  batch update of \<open>setSubAtomicParticleCount\<close> and a \<open>set\<close> on one of the public base
  properties.
\<close>

definition emitted :: "NumberAtom \<Rightarrow> nat" where
  "emitted a = length (filter (\<lambda>c. c = Emit) (calls a))"

datatype update = SetCounts int int int | SetOne baseProperty int

fun applyUpdate :: "update \<Rightarrow> NumberAtom \<Rightarrow> NumberAtom" where
  "applyUpdate (SetCounts p n e) a = setSubAtomicParticleCount p n e a"
| "applyUpdate (SetOne b v) a = propertySet b v a"

section \<open>The radius table and the range of the compression\<close>

lemma literal_zero: "literal 0 = Some 0"
  by (simp add: literal_def toDouble_def)

lemma product_three: "jsTimes (literal 134) (literal (75 / 100)) = literal (1005 / 10)"
  by code_simp

lemma product_four: "jsTimes (literal 90) (literal (97 / 100)) = literal (873 / 10)"
  by code_simp

text \<open>
  C6. The table is exactly \<open>{1:38, 2:32, 3:100.5, 4:87.3, 5:82, 6:77, 7:75, 8:73, 9:71, 10:69}\<close>:
  the products \<open>134 * 0.75\<close> and \<open>90 * 0.97\<close>, computed in double precision, are the very
  doubles that the literals \<open>100.5\<close> and \<open>87.3\<close> denote.
\<close>

theorem table_exact:
  "mapElectronCountToRadius =
     [(''1'', literal 38), (''2'', literal 32), (''3'', literal (1005 / 10)),
      (''4'', literal (873 / 10)), (''5'', literal 82), (''6'', literal 77),
      (''7'', literal 75), (''8'', literal 73), (''9'', literal 71), (''10'', literal 69)] \<and>
   jsTimes (literal 134) (literal (75 / 100)) = literal (1005 / 10) \<and>
   jsTimes (literal 90) (literal (97 / 100)) = literal (873 / 10)"
  unfolding mapElectronCountToRadius_def product_three product_four
  by simp

text \<open>
  The loop compares the property keys. The first key, \<open>"1"\<close>, is compared with the numbers
  \<open>Number.MAX_VALUE\<close> and \<open>0\<close> and replaces both; from then on both bounds are strings and
  every comparison is a string comparison, in which \<open>"10"\<close> is neither below \<open>"1"\<close> nor
  above \<open>"9"\<close>.
\<close>

lemma toNumber_key_one: "toNumber (Str ''1'') = Some 1"
  by code_simp

lemma one_less_MAX_VALUE: "1 < MAX_VALUE"
proof -
  have "(2::rat) ^ 971 * 2 \<le> 2 ^ 971 * 2 ^ 53" by simp
  then have "(2::rat) ^ 971 + 2 ^ 971 \<le> 2 ^ 1024" by (simp add: power_add [symmetric])
  moreover have "(1::rat) < 2 ^ 971" by simp
  ultimately show ?thesis by (simp add: MAX_VALUE_def)
qed

lemma loopBody_first:
  "loopBody ''1'' (Num (Some MAX_VALUE), Num (literal 0)) = (Str ''1'', Str ''1'')"
  using one_less_MAX_VALUE
  by (simp add: loopBody_def jsGreater_def jsLess_def toNumber_key_one literal_zero
        toNumber_def [of "Num x" for x])

lemma loopBody_strings:
  "loopBody k (Str a, Str b) =
     (if stringLess k a then Str k else Str a, if stringLess b k then Str k else Str b)"
  by (simp add: loopBody_def jsGreater_def jsLess_def)

lemma shellRadiusRange_keys: "shellRadiusRange = (Str ''1'', Str ''9'')"
  by (simp add: shellRadiusRange_def mapElectronCountToRadius_def loopBody_first
        loopBody_strings)

lemma numberToString_six: "numberToString 6 = ''6''"
  by code_simp

lemma table_at_six: "map_of mapElectronCountToRadius ''6'' = Some (literal 77)"
  by (simp add: mapElectronCountToRadius_def)

lemma compress_77:
  "LinearFunction (Str ''1'') (Str ''9'') (Num minChangedRadius) (Num maxChangedRadius)
     (Num (literal 77)) = Some (365 / 2)"
  by code_simp

lemma diameter_six_lookup:
  "getElectronShellDiameter assertEnabled 6 = Inr (reduceRadiusRange (literal 77))"
  by (simp add: getElectronShellDiameter_def numberToString_six table_at_six)

lemma reduce_77: "reduceRadiusRange (literal 77) = Some (365 / 2)"
  unfolding reduceRadiusRange_def shellRadiusRange_keys
  by (simp add: compress_77)

lemma compress_77_claimed:
  "LinearFunction (Num (literal 32)) (Num (literal (1005 / 10))) (Num minChangedRadius)
     (Num maxChangedRadius) (Num (literal 77)) = Some (1754082199757099 / 35184372088832)"
  by code_simp

text \<open>
  C1. The claim is that the table value is rescaled from \<open>[32, 100.5]\<close>, the least and
  greatest table values, to \<open>[40, 55]\<close>, so that six electrons give a value strictly
  between 40 and 55. The code does not do this: its loop ranges over the keys of the table,
  the bounds it finds are the keys \<open>"1"\<close> and \<open>"9"\<close>, and the value 77 of six electrons is
  rescaled from \<open>[1, 9]\<close>, which gives 182.5. With the bounds 32 and 100.5 the same
  interpolation would give about 49.85.
\<close>

theorem diameter_at_six:
  "shellRadiusRange = (Str ''1'', Str ''9'') \<and>
   getElectronShellDiameter assertEnabled 6 = Inr (Some (365 / 2)) \<and>
   \<not> (365 / 2 < (55::rat)) \<and>
   LinearFunction (Num (literal 32)) (Num (literal (1005 / 10))) (Num minChangedRadius)
     (Num maxChangedRadius) (Num (literal 77)) = Some (1754082199757099 / 35184372088832) \<and>
   (40::rat) < 1754082199757099 / 35184372088832 \<and>
   1754082199757099 / 35184372088832 < (55::rat)"
proof -
  have "getElectronShellDiameter assertEnabled 6 = Inr (Some (365 / 2))"
    by (simp only: diameter_six_lookup reduce_77)
  moreover have "\<not> (365 / 2 < (55::rat))" by simp
  moreover have "(40::rat) < 1754082199757099 / 35184372088832" by simp
  moreover have "1754082199757099 / 35184372088832 < (55::rat)" by simp
  ultimately show ?thesis using shellRadiusRange_keys compress_77_claimed by blast
qed

section \<open>No electrons, and more electrons than the table has\<close>

lemma literal_1E5: "literal (1 / 100000) = Some (5902958103587057 / 590295810358705651712)"
  by code_simp


text \<open>
  The key of an electron count is its decimal representation, and reading a decimal
  representation back gives the count; so the key of a count above 10 is none of the ten
  keys of the table.
\<close>

lemma digitValue_digitChar: "d < 10 \<Longrightarrow> digitValue (digitChar d) = d"
  by (simp add: digitValue_def digitChar_def)

lemma digitsToNat_snoc: "digitsToNat (s @ [c]) = 10 * digitsToNat s + digitValue c"
  by (simp add: digitsToNat_def)

lemma digitsToNat_natToString: "digitsToNat (natToString n) = n"
proof (induction n rule: natToString.induct)
  case (1 n)
  show ?case
  proof (cases "n < 10")
    case True
    then have "natToString n = [digitChar n]" by (subst natToString.simps) simp
    with True show ?thesis by (simp add: digitsToNat_def digitValue_digitChar)
  next
    case False
    then have "natToString n = natToString (n div 10) @ [digitChar (n mod 10)]"
      by (subst natToString.simps) simp
    with False "1.IH" show ?thesis
      by (simp add: digitsToNat_snoc digitValue_digitChar)
  qed
qed

lemma table_keys:
  "k \<in> fst ` set mapElectronCountToRadius \<Longrightarrow> 1 \<le> digitsToNat k \<and> digitsToNat k \<le> 10"
  by (auto simp add: mapElectronCountToRadius_def digitsToNat_def digitValue_def)

lemma not_in_table:
  assumes "10 < numElectrons"
  shows "map_of mapElectronCountToRadius (numberToString numElectrons) = None"
proof (rule ccontr)
  assume "map_of mapElectronCountToRadius (numberToString numElectrons) \<noteq> None"
  then have "numberToString numElectrons \<in> fst ` set mapElectronCountToRadius"
    by (simp add: map_of_eq_None_iff)
  then have "digitsToNat (numberToString numElectrons) \<le> 10"
    using table_keys by blast
  moreover from assms have "numberToString numElectrons = natToString (nat numElectrons)"
    by (simp add: numberToString_def)
  ultimately have "nat numElectrons \<le> 10"
    by (simp add: digitsToNat_natToString)
  with assms show False by simp
qed

lemma numberToString_eleven: "numberToString 11 = ''11''"
  by code_simp

text \<open>
  C7. For every electron count above 10 the diameter function fails its assertion when
  assertions are enabled, and returns 0 when they are not.
\<close>

theorem unsupported_electron_count:
  assumes "10 < numElectrons"
  shows "getElectronShellDiameter True numElectrons =
           Inl (AssertionError (''Atom has more than supported number of electrons, ''
                                  @ numberToString numElectrons)) \<and>
         getElectronShellDiameter False numElectrons = Inr (Some 0)"
  using assms
  by (simp add: getElectronShellDiameter_def not_in_table MAX_ELECTRONS_def literal_zero)

theorem unsupported_electron_count_witness:
  "(10::int) < 11 \<and>
   getElectronShellDiameter True 11 =
     Inl (AssertionError ''Atom has more than supported number of electrons, 11'') \<and>
   getElectronShellDiameter False 11 = Inr (Some 0)"
  using unsupported_electron_count [of 11]
  by (simp add: numberToString_eleven)

section \<open>NumberAtom: construction and updates\<close>

lemma listeners_create:
  "listeners (create p n e) =
     [(ProtonCount, Charge), (ElectronCount, Charge),
      (ProtonCount, MassNumber), (NeutronCount, MassNumber),
      (ProtonCount, ParticleCount), (NeutronCount, ParticleCount),
      (ElectronCount, ParticleCount)]"
  by (simp add: create_def newDerivedProperty_def)

lemma create_fields:
  "protonCountProperty (create p n e) = p"
  "neutronCountProperty (create p n e) = n"
  "electronCountProperty (create p n e) = e"
  "chargeProperty (create p n e) = p - e"
  "massNumberProperty (create p n e) = p + n"
  "particleCountProperty (create p n e) = p + n + e"
  "calls (create p n e) = []"
  by (simp_all add: create_def newDerivedProperty_def)

lemma create_counts:
  "protonCount (create p n e) = p"
  "neutronCount (create p n e) = n"
  "electronCount (create p n e) = e"
  by (simp_all add: protonCount_def neutronCount_def electronCount_def create_fields)

lemma live_create: "live (create p n e)"
  by (simp add: live_def listeners_create create_fields)

lemma consistent_create: "consistent (create p n e)"
  by (simp add: consistent_def create_fields protonCount_def neutronCount_def electronCount_def)

text \<open>Recomputing derived values changes neither base counts, subscriptions nor calls.\<close>

lemma recompute_frame:
  "protonCountProperty (recompute d x) = protonCountProperty x"
  "neutronCountProperty (recompute d x) = neutronCountProperty x"
  "electronCountProperty (recompute d x) = electronCountProperty x"
  "listeners (recompute d x) = listeners x"
  "calls (recompute d x) = calls x"
  by (cases d; simp)+

lemma fold_recompute_frame:
  "protonCountProperty (fold recompute ds x) = protonCountProperty x"
  "neutronCountProperty (fold recompute ds x) = neutronCountProperty x"
  "electronCountProperty (fold recompute ds x) = electronCountProperty x"
  "listeners (fold recompute ds x) = listeners x"
  "calls (fold recompute ds x) = calls x"
  by (induction ds arbitrary: x; simp add: recompute_frame)+

lemma propertySet_calls: "calls (propertySet b v a) = calls a @ [Set b v]"
  by (cases b) (simp_all add: propertySet_def notifyListeners_def Let_def fold_recompute_frame)

lemma propertySet_listeners: "listeners (propertySet b v a) = listeners a"
  by (cases b) (simp_all add: propertySet_def notifyListeners_def Let_def fold_recompute_frame)

lemma propertySet_base:
  "protonCountProperty (propertySet b v a) = (if b = ProtonCount then v else protonCountProperty a)"
  "neutronCountProperty (propertySet b v a) = (if b = NeutronCount then v else neutronCountProperty a)"
  "electronCountProperty (propertySet b v a) = (if b = ElectronCount then v else electronCountProperty a)"
  by (cases b; simp add: propertySet_def notifyListeners_def Let_def fold_recompute_frame)+

lemma propertySet_same:
  "getValue b a = v \<Longrightarrow> propertySet b v a = a\<lparr>calls := calls a @ [Set b v]\<rparr>"
  by (cases b) (simp_all add: propertySet_def Let_def)

lemma propertySet_live: "live a \<Longrightarrow> live (propertySet b v a)"
  by (simp add: live_def propertySet_listeners propertySet_calls)

text \<open>
  On a live atom a \<open>set\<close> that changes a base count recomputes every derived property that
  depends on it, so consistency is kept by every single \<open>set\<close>.
\<close>

lemma propertySet_consistent:
  assumes "live a" "consistent a"
  shows "consistent (propertySet b v a)"
  using assms
  by (cases b)
     (auto simp add: live_def listeners_create consistent_def propertySet_def
        notifyListeners_def Let_def protonCount_def neutronCount_def electronCount_def)

lemma emit_fields:
  "protonCountProperty (emit a) = protonCountProperty a"
  "neutronCountProperty (emit a) = neutronCountProperty a"
  "electronCountProperty (emit a) = electronCountProperty a"
  "chargeProperty (emit a) = chargeProperty a"
  "massNumberProperty (emit a) = massNumberProperty a"
  "particleCountProperty (emit a) = particleCountProperty a"
  "listeners (emit a) = listeners a"
  "calls (emit a) = calls a @ [Emit]"
  by (simp_all add: emit_def)

lemma emit_live: "live a \<Longrightarrow> live (emit a)"
  by (simp add: live_def emit_fields)

lemma emit_consistent: "consistent a \<Longrightarrow> consistent (emit a)"
  by (simp add: consistent_def emit_fields protonCount_def neutronCount_def electronCount_def)

lemma setCounts_live: "live a \<Longrightarrow> live (setSubAtomicParticleCount p n e a)"
  by (simp add: setSubAtomicParticleCount_def emit_live propertySet_live)

lemma setCounts_consistent:
  "live a \<Longrightarrow> consistent a \<Longrightarrow> consistent (setSubAtomicParticleCount p n e a)"
  by (simp add: setSubAtomicParticleCount_def emit_consistent propertySet_consistent
        propertySet_live)

lemma setCounts_calls:
  "calls (setSubAtomicParticleCount p n e a) =
     calls a @ [Set ProtonCount p, Set ElectronCount e, Set NeutronCount n, Emit]"
  by (simp add: setSubAtomicParticleCount_def emit_fields propertySet_calls)

lemma setCounts_counts:
  "protonCount (setSubAtomicParticleCount p n e a) = p"
  "neutronCount (setSubAtomicParticleCount p n e a) = n"
  "electronCount (setSubAtomicParticleCount p n e a) = e"
  by (simp_all add: setSubAtomicParticleCount_def protonCount_def neutronCount_def
        electronCount_def emit_fields propertySet_base)

lemma emitted_setCounts: "emitted (setSubAtomicParticleCount p n e a) = emitted a + 1"
  by (simp add: emitted_def setCounts_calls)

lemma applyUpdate_invariant:
  "live a \<and> consistent a \<Longrightarrow> live (applyUpdate u a) \<and> consistent (applyUpdate u a)"
  by (cases u)
     (simp_all add: setCounts_live setCounts_consistent propertySet_live propertySet_consistent)

lemma updates_invariant:
  "live a \<and> consistent a \<Longrightarrow>
   live (fold applyUpdate us a) \<and> consistent (fold applyUpdate us a)"
proof (induction us arbitrary: a)
  case Nil
  then show ?case by simp
next
  case (Cons u us)
  from Cons.prems have "live (applyUpdate u a) \<and> consistent (applyUpdate u a)"
    by (rule applyUpdate_invariant)
  then show ?case using Cons.IH by simp
qed



text \<open>
  C4. A call of \<open>setSubAtomicParticleCount\<close> on a live atom replaces the three base counts
  by its arguments and emits \<open>atomUpdated\<close> exactly once: the calls it makes are the three
  \<open>set\<close> calls followed by the one \<open>emit\<close>, so the notification comes after all three
  counts have been updated.
\<close>

theorem setCounts_one_notification:
  assumes "live a"
  shows "protonCount (setSubAtomicParticleCount p n e a) = p \<and>
         neutronCount (setSubAtomicParticleCount p n e a) = n \<and>
         electronCount (setSubAtomicParticleCount p n e a) = e \<and>
         emitted (setSubAtomicParticleCount p n e a) = emitted a + 1 \<and>
         calls (setSubAtomicParticleCount p n e a) =
           calls a @ [Set ProtonCount p, Set ElectronCount e, Set NeutronCount n, Emit] \<and>
         live (setSubAtomicParticleCount p n e a)"
  using assms
  by (simp add: setCounts_counts emitted_setCounts setCounts_calls setCounts_live)

theorem setCounts_one_notification_witness:
  "live (create 0 0 0) \<and>
   protonCount (setSubAtomicParticleCount 6 6 6 (create 0 0 0)) = 6 \<and>
   neutronCount (setSubAtomicParticleCount 6 6 6 (create 0 0 0)) = 6 \<and>
   electronCount (setSubAtomicParticleCount 6 6 6 (create 0 0 0)) = 6 \<and>
   emitted (setSubAtomicParticleCount 6 6 6 (create 0 0 0)) = 1 \<and>
   calls (setSubAtomicParticleCount 6 6 6 (create 0 0 0)) =
     [Set ProtonCount 6, Set ElectronCount 6, Set NeutronCount 6, Emit]"
  using setCounts_one_notification [of "create 0 0 0" 6 6 6]
  by (simp add: live_create create_fields emitted_def)

text \<open>
  C10. Called with the counts the atom already has, \<open>setSubAtomicParticleCount\<close> changes
  nothing in the atom and still emits \<open>atomUpdated\<close> once.
\<close>

theorem same_counts_still_emit:
  assumes "live a"
  shows "emitted (setSubAtomicParticleCount (protonCount a) (neutronCount a) (electronCount a) a)
           = emitted a + 1 \<and>
         (setSubAtomicParticleCount (protonCount a) (neutronCount a) (electronCount a) a)
           \<lparr>calls := calls a\<rparr> = a"
  by (simp add: emitted_setCounts)
     (simp add: setSubAtomicParticleCount_def protonCount_def neutronCount_def
        electronCount_def propertySet_same emit_def)

theorem same_counts_still_emit_witness:
  "live (create 6 6 6) \<and>
   emitted (setSubAtomicParticleCount 6 6 6 (create 6 6 6)) = 1 \<and>
   (setSubAtomicParticleCount 6 6 6 (create 6 6 6))\<lparr>calls := []\<rparr> = create 6 6 6"
  using same_counts_still_emit [of "create 6 6 6"]
  by (simp add: live_create create_fields emitted_def protonCount_def neutronCount_def
        electronCount_def)

section \<open>NumberAtom: arguments are not validated\<close>

text \<open>
  C3, as stated, fails: \<open>setSubAtomicParticleCount(-1, 0, 0)\<close> on a new atom does not fail
  and does not leave the counts as they were. It runs to its last statement and the proton
  count is \<open>-1\<close> afterwards.
\<close>

theorem setCounts_negative_counterexample:
  "live (create 0 0 0) \<and>
   protonCount (create 0 0 0) = 0 \<and>
   protonCount (setSubAtomicParticleCount (- 1) 0 0 (create 0 0 0)) = - 1 \<and>
   calls (setSubAtomicParticleCount (- 1) 0 0 (create 0 0 0)) =
     [Set ProtonCount (- 1), Set ElectronCount 0, Set NeutronCount 0, Emit]"
  by (simp add: live_create setCounts_counts setCounts_calls create_fields create_counts)

text \<open>
  C3, amended. \<open>setSubAtomicParticleCount\<close> does not validate its arguments: on a live atom,
  also when some argument is negative, the call runs to its last statement, the emission
  of \<open>atomUpdated\<close>, and the three base counts are then exactly the arguments.
\<close>

theorem setCounts_no_validation:
  assumes "live a" and "p < 0 \<or> n < 0 \<or> e < 0"
  shows "protonCount (setSubAtomicParticleCount p n e a) = p \<and>
         neutronCount (setSubAtomicParticleCount p n e a) = n \<and>
         electronCount (setSubAtomicParticleCount p n e a) = e \<and>
         last (calls (setSubAtomicParticleCount p n e a)) = Emit"
  by (simp add: setCounts_counts setCounts_calls)

theorem setCounts_no_validation_witness:
  "live (create 0 0 0) \<and> ((- 1 :: int) < 0) \<and>
   protonCount (setSubAtomicParticleCount (- 1) 0 0 (create 0 0 0)) = - 1 \<and>
   neutronCount (setSubAtomicParticleCount (- 1) 0 0 (create 0 0 0)) = 0 \<and>
   electronCount (setSubAtomicParticleCount (- 1) 0 0 (create 0 0 0)) = 0 \<and>
   last (calls (setSubAtomicParticleCount (- 1) 0 0 (create 0 0 0))) = Emit"
  using setCounts_no_validation [of "create 0 0 0" "- 1" 0 0]
  by (simp add: live_create)

section \<open>NumberAtom: dispose\<close>

lemma dispose_calls:
  "calls (dispose a) =
     calls a @ [DisposeDerived Charge, DisposeDerived MassNumber, DisposeDerived ParticleCount,
                DisposeBase ProtonCount, DisposeBase NeutronCount, DisposeBase ElectronCount,
                DisposeEmitter]"
  by (simp add: dispose_def disposeEmitter_def disposeBase_def disposeDerived_def)

lemma derived_teardown_releases_all:
  "live a \<Longrightarrow>
   listeners (disposeDerived ParticleCount (disposeDerived MassNumber (disposeDerived Charge a)))
     = []"
  by (simp add: live_def listeners_create disposeDerived_def)




section \<open>NumberAtom: equals\<close>

text \<open>
  C9. \<open>equals\<close> is reflexive and symmetric and holds exactly when the three base counts
  agree; atoms that differ in a base count are unequal, as \<open>(6, 6, 6)\<close> and \<open>(6, 6, 7)\<close>
  are although their mass numbers coincide.
\<close>

theorem equals_structural:
  "equals a a \<and>
   equals a b = equals b a \<and>
   equals a b = (protonCount a = protonCount b \<and> neutronCount a = neutronCount b \<and>
                 electronCount a = electronCount b) \<and>
   equals (create p n e) (create p' n' e') = (p = p' \<and> n = n' \<and> e = e') \<and>
   equals (create 6 6 6) (create 6 6 6) \<and>
   \<not> equals (create 6 6 6) (create 6 6 7) \<and>
   massNumberProperty (create 6 6 6) = massNumberProperty (create 6 6 7)"
  by (auto simp add: equals_def protonCount_def neutronCount_def electronCount_def create_fields)

end
